theory Spec2Isabelle
  imports Main "HOL-Library.Sublist" "HOL-Library.Word"
begin

section \<open>Logi Circle camera platform (camera.py)\<close>

text \<open>
  The module is glue between a host framework and a vendor SDK. The embedding keeps the
  module's own control flow (comparisons, guards, loops, try/finally) and makes every call
  that leaves the module an observable event of a trace. What a collaborator answers
  (does a Device Handle call raise, is a path whitelisted, what does a template render to)
  is a parameter, collected in the record \<open>env\<close>.
\<close>

subsection \<open>Python values and exceptions\<close>

text \<open>
  The values that travel through a service call's data and through the Device Handle's
  properties. \<open>VTemplate\<close> is a host template object, carrying its source text.
\<close>

datatype pyval =
    VNone
  | VBool bool
  | VInt int
  | VStr string
  | VList "string list"
  | VTemplate string

text \<open>
  Exceptions. \<open>TypeError\<close>, \<open>AttributeError\<close> and \<open>OverflowError\<close> are the ones the
  interpreter and the standard library raise in this module; \<open>BrokenPipeError\<close> is the
  one the module catches; \<open>Failure n\<close> is any other exception, of class \<open>n\<close>, raised
  by a collaborator.
\<close>

datatype exn = TypeError | AttributeError | OverflowError | BrokenPipeError | Failure string

text \<open>Python's truth value of an object, as used by \<open>if x:\<close> and \<open>a if x else b\<close>.\<close>

fun truthy :: "pyval \<Rightarrow> bool" where
  "truthy VNone = False"
| "truthy (VBool b) = b"
| "truthy (VInt n) = (n \<noteq> 0)"
| "truthy (VStr s) = (s \<noteq> [])"
| "truthy (VList xs) = (xs \<noteq> [])"
| "truthy (VTemplate t) = True"

text \<open>
  \<open>x in c\<close> for a string \<open>x\<close>: membership in a list, substring test in a string, and a
  \<open>TypeError\<close> for a container that is not iterable.
\<close>

fun py_in :: "string \<Rightarrow> pyval \<Rightarrow> exn + bool" where
  "py_in x (VList xs) = Inr (x \<in> set xs)"
| "py_in x (VStr s) = Inr (sublist x s)"
| "py_in x VNone = Inl TypeError"
| "py_in x (VBool b) = Inl TypeError"
| "py_in x (VInt n) = Inl TypeError"
| "py_in x (VTemplate t) = Inl TypeError"

subsection \<open>Observable events\<close>

type_synonym dev_ref = nat

type_synonym bytes = "8 word list"

type_synonym kwargs = "(string \<times> pyval) list"

text \<open>The calls the module makes on a Device Handle (\<open>self._camera\<close>).\<close>

datatype dev_call =
    Set_led pyval
  | Set_privacy_mode pyval
  | Set_battery_saving_mode pyval
  | Set_streaming_mode bool
  | Get_snapshot_image
  | Get_livestream_image string
  | Record_livestream string int
  | Last_activity

text \<open>The adapter methods the dispatcher can invoke.\<close>

datatype adapter_method = M_set_config | M_livestream_snapshot | M_download_livestream

text \<open>
  \<open>Dev r c\<close>: call \<open>c\<close> made on the Device Handle \<open>r\<close>.
  \<open>Log_error s\<close>: \<open>_LOGGER.error\<close> with the formatted message \<open>s\<close>.
  \<open>Invoke e m kw\<close>: the dispatcher calls the operation \<open>m\<close> of the adapter with entity
  id \<open>e\<close>, with keyword arguments \<open>kw\<close>.
  The remaining four are the calls on the transcoding process wrapper and the proxy helper.
\<close>

datatype event =
    Dev dev_ref dev_call
  | Log_error string
  | Invoke string adapter_method kwargs
  | Open_camera string
  | Get_reader
  | Proxy_stream nat nat string
  | Close_stream

subsection \<open>Collaborators\<close>

text \<open>
  The behaviour of everything outside the module. A Device Handle call that is awaited
  may raise; \<open>dev_raises\<close> says whether it does, given the events so far.
\<close>

record env =
  is_allowed_path :: "string \<Rightarrow> bool"
  async_render :: "string \<Rightarrow> string \<Rightarrow> exn + string"
  dev_raises :: "event list \<Rightarrow> dev_ref \<Rightarrow> dev_call \<Rightarrow> exn option"
  get_snapshot_image :: "event list \<Rightarrow> dev_ref \<Rightarrow> exn + bytes"
  last_activity :: "dev_ref \<Rightarrow> exn + string option"
  session_cookie :: "dev_ref \<Rightarrow> exn + string"
  open_camera :: "string \<Rightarrow> exn option"
  get_reader :: "exn + nat"
  proxy_stream :: "nat \<Rightarrow> nat \<Rightarrow> string \<Rightarrow> exn + nat"
  close_stream :: "exn option"

text \<open>The properties of a Device Handle that the adapter reads.\<close>

record device_handle =
  dh_name :: string
  mac_address :: string
  features :: "string list"
  battery_saving :: pyval
  ip_address :: pyval
  microphone_gain :: pyval
  is_charging :: pyval
  battery_level :: pyval

definition supports_feature :: "device_handle \<Rightarrow> string \<Rightarrow> bool" where
  "supports_feature h f = (f \<in> set (features h))"

text \<open>
  Constants the module imports from the host framework and from its own package
  (\<open>from . import ATTRIBUTION\<close>); their values are not in the module, so they are
  parameters.
\<close>

record host_consts =
  ATTR_ENTITY_ID :: string
  ATTR_ATTRIBUTION :: string
  ATTR_BATTERY_CHARGING :: string
  ATTR_BATTERY_LEVEL :: string
  STATE_ON :: string
  STATE_OFF :: string
  ATTRIBUTION :: string

subsection \<open>Module constants\<close>

definition SERVICE_SET_CONFIG :: string where
  "SERVICE_SET_CONFIG = ''logi_circle_set_config''"

definition SERVICE_LIVESTREAM_SNAPSHOT :: string where
  "SERVICE_LIVESTREAM_SNAPSHOT = ''logi_circle_livestream_snapshot''"

definition SERVICE_LIVESTREAM_RECORD :: string where
  "SERVICE_LIVESTREAM_RECORD = ''logi_circle_livestream_record''"

definition BATTERY_SAVING_MODE_KEY :: string where
  "BATTERY_SAVING_MODE_KEY = ''BATTERY_SAVING''"

definition PRIVACY_MODE_KEY :: string where
  "PRIVACY_MODE_KEY = ''PRIVACY_MODE''"

definition LED_MODE_KEY :: string where
  "LED_MODE_KEY = ''LED''"

subsection \<open>Actions: a trace and a result or an exception\<close>

type_synonym 'a action = "event list \<Rightarrow> (exn + 'a) \<times> event list"

definition returns :: "'a \<Rightarrow> 'a action" where
  "returns x tr = (Inr x, tr)"

definition raises :: "exn \<Rightarrow> 'a action" where
  "raises e tr = (Inl e, tr)"

text \<open>Sequencing: an exception of the first action skips the second.\<close>

definition and_then :: "'a action \<Rightarrow> ('a \<Rightarrow> 'b action) \<Rightarrow> 'b action" where
  "and_then m f tr = (case m tr of (Inl e, tr') \<Rightarrow> (Inl e, tr') | (Inr x, tr') \<Rightarrow> f x tr')"

definition emit :: "event \<Rightarrow> unit action" where
  "emit ev tr = (Inr (), tr @ [ev])"

text \<open>\<open>await self._camera.c(...)\<close>: the call is made, and its exception, if any, is raised here.\<close>

definition await_dev :: "env \<Rightarrow> dev_ref \<Rightarrow> dev_call \<Rightarrow> unit action" where
  "await_dev env r c tr =
     ((case dev_raises env tr r c of None \<Rightarrow> Inr () | Some e \<Rightarrow> Inl e), tr @ [Dev r c])"

text \<open>
  \<open>asyncio.shield(self._camera.c(...), loop=...)\<close>: the call is handed to the event loop
  and not awaited, so nothing it does later reaches the caller.
\<close>

definition shield_dev :: "dev_ref \<Rightarrow> dev_call \<Rightarrow> unit action" where
  "shield_dev r c = emit (Dev r c)"

subsection \<open>The adapter: class LogiCam\<close>

text \<open>
  The fields \<open>__init__\<close> sets, and \<open>entity_id\<close>, which the host's entity base class holds
  and the host assigns when the entity is added.
\<close>

record ffmpeg_manager =
  binary :: string
  ffmpeg_stream_content_type :: string

record LogiCam =
  self_camera :: dev_ref
  self_name :: string
  self_id :: string
  self_has_battery :: bool
  self_ffmpeg :: ffmpeg_manager
  entity_id :: string

definition LogiCam_init ::
  "(dev_ref \<Rightarrow> device_handle) \<Rightarrow> dev_ref \<Rightarrow> ffmpeg_manager \<Rightarrow> string \<Rightarrow> LogiCam" where
  "LogiCam_init store camera ffmpeg eid =
     \<lparr> self_camera = camera,
       self_name = dh_name (store camera),
       self_id = mac_address (store camera),
       self_has_battery = supports_feature (store camera) ''battery_level'',
       self_ffmpeg = ffmpeg,
       entity_id = eid \<rparr>"

text \<open>\<open>device_state_attributes\<close>: a dict, built by a literal and two conditional stores.\<close>

definition device_state_attributes ::
  "host_consts \<Rightarrow> (dev_ref \<Rightarrow> device_handle) \<Rightarrow> LogiCam \<Rightarrow> (string \<rightharpoonup> pyval)" where
  "device_state_attributes c store self =
     (let cam = store (self_camera self);
          state = [ATTR_ATTRIBUTION c \<mapsto> VStr (ATTRIBUTION c),
                   ''battery_saving_mode'' \<mapsto>
                      VStr (if truthy (battery_saving cam) then STATE_ON c else STATE_OFF c),
                   ''ip_address'' \<mapsto> ip_address cam,
                   ''microphone_gain'' \<mapsto> microphone_gain cam]
      in if self_has_battery self
         then state(ATTR_BATTERY_CHARGING c \<mapsto> is_charging cam,
                    ATTR_BATTERY_LEVEL c \<mapsto> battery_level cam)
         else state)"

text \<open>\<open>async_camera_image\<close>: the awaited snapshot fetch, returned as it is.\<close>

definition async_camera_image :: "env \<Rightarrow> LogiCam \<Rightarrow> bytes action" where
  "async_camera_image env self tr =
     (get_snapshot_image env tr (self_camera self),
      tr @ [Dev (self_camera self) Get_snapshot_image])"

definition async_turn_off :: "env \<Rightarrow> LogiCam \<Rightarrow> unit action" where
  "async_turn_off env self = await_dev env (self_camera self) (Set_streaming_mode False)"

definition async_turn_on :: "env \<Rightarrow> LogiCam \<Rightarrow> unit action" where
  "async_turn_on env self = await_dev env (self_camera self) (Set_streaming_mode True)"

text \<open>\<open>set_config\<close>: three \<open>if\<close> statements in a row, not an \<open>elif\<close> chain.\<close>

definition set_config :: "env \<Rightarrow> LogiCam \<Rightarrow> pyval \<Rightarrow> pyval \<Rightarrow> unit action" where
  "set_config env self mode val =
     and_then
       (if mode = VStr LED_MODE_KEY
        then await_dev env (self_camera self) (Set_led val) else returns ())
       (\<lambda>_. and_then
         (if mode = VStr PRIVACY_MODE_KEY
          then await_dev env (self_camera self) (Set_privacy_mode val) else returns ())
         (\<lambda>_. if mode = VStr BATTERY_SAVING_MODE_KEY
               then await_dev env (self_camera self) (Set_battery_saving_mode val)
               else returns ()))"

text \<open>
  \<open>filename.hass = self.hass; filename.async_render(variables=...)\<close>: only a template
  object takes the attribute; rendering may raise.
\<close>

definition render_filename :: "env \<Rightarrow> LogiCam \<Rightarrow> pyval \<Rightarrow> string action" where
  "render_filename env self filename tr =
     (case filename of
        VTemplate t \<Rightarrow> (async_render env t (entity_id self), tr)
      | _ \<Rightarrow> (Inl AttributeError, tr))"

definition no_access_message :: "string \<Rightarrow> string" where
  "no_access_message path = ''Can't write '' @ path @ '', no access to path!''"

text \<open>
  \<open>timedelta(seconds=duration)\<close>. The argument is an integer (or a bool, which is one),
  anything else is a \<open>TypeError\<close>. The seconds are normalised into whole days, by floor
  division, and seconds of the day, and a number of days beyond 999999999 in magnitude is
  an \<open>OverflowError\<close>.
\<close>

fun timedelta_seconds :: "pyval \<Rightarrow> exn + int" where
  "timedelta_seconds (VInt n) =
     (if - 999999999 \<le> n div 86400 \<and> n div 86400 \<le> 999999999 then Inr n
      else Inl OverflowError)"
| "timedelta_seconds (VBool b) = Inr (if b then 1 else 0)"
| "timedelta_seconds VNone = Inl TypeError"
| "timedelta_seconds (VStr s) = Inl TypeError"
| "timedelta_seconds (VList xs) = Inl TypeError"
| "timedelta_seconds (VTemplate t) = Inl TypeError"

definition download_livestream :: "env \<Rightarrow> LogiCam \<Rightarrow> pyval \<Rightarrow> pyval \<Rightarrow> unit action" where
  "download_livestream env self filename duration =
     and_then (render_filename env self filename)
       (\<lambda>stream_file.
          if \<not> is_allowed_path env stream_file
          then emit (Log_error (no_access_message stream_file))
          else (case timedelta_seconds duration of
                  Inl e \<Rightarrow> raises e
                | Inr d \<Rightarrow> shield_dev (self_camera self) (Record_livestream stream_file d)))"

definition livestream_snapshot :: "env \<Rightarrow> LogiCam \<Rightarrow> pyval \<Rightarrow> unit action" where
  "livestream_snapshot env self filename =
     and_then (render_filename env self filename)
       (\<lambda>snapshot_file.
          if \<not> is_allowed_path env snapshot_file
          then emit (Log_error (no_access_message snapshot_file))
          else shield_dev (self_camera self) (Get_livestream_image snapshot_file))"

text \<open>
  \<open>handle_async_mjpeg_stream\<close>. The steps before the \<open>try\<close>: the awaited last activity,
  the session cookie (a dict lookup, which may raise), the header and the wrapper's
  \<open>open_camera\<close>, whose argument reads \<open>last_activity.download_url\<close>.
\<close>

definition await_last_activity :: "env \<Rightarrow> dev_ref \<Rightarrow> string option action" where
  "await_last_activity env r tr = (last_activity env r, tr @ [Dev r Last_activity])"

definition lookup_cookie :: "env \<Rightarrow> dev_ref \<Rightarrow> string action" where
  "lookup_cookie env r tr = (session_cookie env r, tr)"

definition download_url :: "string option \<Rightarrow> string action" where
  "download_url la = (case la of None \<Rightarrow> raises AttributeError | Some url \<Rightarrow> returns url)"

definition auth_header :: "string \<Rightarrow> string" where
  "auth_header cookie = [CHR 0x22] @ ''X-Logi-Auth: '' @ cookie @ [CHR 0x22]"

definition await_open_camera :: "env \<Rightarrow> string \<Rightarrow> unit action" where
  "await_open_camera env arg tr =
     ((case open_camera env arg of None \<Rightarrow> Inr () | Some e \<Rightarrow> Inl e), tr @ [Open_camera arg])"

definition await_get_reader :: "env \<Rightarrow> nat action" where
  "await_get_reader env tr = (get_reader env, tr @ [Get_reader])"

definition await_proxy_stream :: "env \<Rightarrow> nat \<Rightarrow> nat \<Rightarrow> string \<Rightarrow> nat option action" where
  "await_proxy_stream env request reader ctype tr =
     ((case proxy_stream env request reader ctype of Inl e \<Rightarrow> Inl e | Inr resp \<Rightarrow> Inr (Some resp)),
      tr @ [Proxy_stream request reader ctype])"

text \<open>
  \<open>try: body finally: try: await stream.close() except BrokenPipeError: return\<close>.
  The close runs whatever the body did. When it returns, the body's result or exception
  stands; when it raises \<open>BrokenPipeError\<close>, the bare \<open>return\<close> makes the function return
  \<open>None\<close>; any other exception of the close leaves the function.
\<close>

definition finally_close :: "env \<Rightarrow> nat option action \<Rightarrow> nat option action" where
  "finally_close env body tr =
     (case body tr of
        (r, tr1) \<Rightarrow>
          (case close_stream env of
             None \<Rightarrow> (r, tr1 @ [Close_stream])
           | Some e \<Rightarrow>
               (if e = BrokenPipeError then (Inr None, tr1 @ [Close_stream])
                else (Inl e, tr1 @ [Close_stream]))))"

definition stream_body :: "env \<Rightarrow> LogiCam \<Rightarrow> nat \<Rightarrow> nat option action" where
  "stream_body env self request =
     and_then (await_get_reader env)
       (\<lambda>stream_reader.
          await_proxy_stream env request stream_reader
            (ffmpeg_stream_content_type (self_ffmpeg self)))"

definition handle_async_mjpeg_stream :: "env \<Rightarrow> LogiCam \<Rightarrow> nat \<Rightarrow> nat option action" where
  "handle_async_mjpeg_stream env self request =
     and_then (await_last_activity env (self_camera self))
       (\<lambda>la. and_then (lookup_cookie env (self_camera self))
         (\<lambda>cookie. and_then (download_url la)
           (\<lambda>url. and_then
              (await_open_camera env (''-headers '' @ auth_header cookie @ '' -i '' @ url))
              (\<lambda>_. finally_close env (stream_body env self request)))))"

subsection \<open>The dispatcher: service_handler\<close>

record service_call =
  service :: string
  data :: kwargs

text \<open>
  \<open>f(**params)\<close> for a function whose parameters are \<open>names\<close>, none with a default: the
  keys must be exactly the names, or the call raises \<open>TypeError\<close> before the body runs.
\<close>

definition accepts :: "string list \<Rightarrow> kwargs \<Rightarrow> bool" where
  "accepts names kw = (set (map fst kw) = set names)"

definition call_set_config :: "env \<Rightarrow> LogiCam \<Rightarrow> kwargs \<Rightarrow> unit action" where
  "call_set_config env target kw =
     (case (map_of kw ''mode'', map_of kw ''value'') of
        (Some mode, Some val) \<Rightarrow>
          if accepts [''mode'', ''value''] kw then set_config env target mode val
          else raises TypeError
      | _ \<Rightarrow> raises TypeError)"

definition call_livestream_snapshot :: "env \<Rightarrow> LogiCam \<Rightarrow> kwargs \<Rightarrow> unit action" where
  "call_livestream_snapshot env target kw =
     (case map_of kw ''filename'' of
        Some filename \<Rightarrow>
          if accepts [''filename''] kw then livestream_snapshot env target filename
          else raises TypeError
      | None \<Rightarrow> raises TypeError)"

definition call_download_livestream :: "env \<Rightarrow> LogiCam \<Rightarrow> kwargs \<Rightarrow> unit action" where
  "call_download_livestream env target kw =
     (case (map_of kw ''filename'', map_of kw ''duration'') of
        (Some filename, Some duration) \<Rightarrow>
          if accepts [''filename'', ''duration''] kw
          then download_livestream env target filename duration
          else raises TypeError
      | _ \<Rightarrow> raises TypeError)"

text \<open>The body of the \<open>for\<close> loop: three \<open>if\<close> statements on the service name.\<close>

definition dispatch_one :: "env \<Rightarrow> string \<Rightarrow> kwargs \<Rightarrow> LogiCam \<Rightarrow> unit action" where
  "dispatch_one env svc params target =
     and_then
       (if svc = SERVICE_SET_CONFIG
        then and_then (emit (Invoke (entity_id target) M_set_config params))
               (\<lambda>_. call_set_config env target params)
        else returns ())
       (\<lambda>_. and_then
         (if svc = SERVICE_LIVESTREAM_SNAPSHOT
          then and_then (emit (Invoke (entity_id target) M_livestream_snapshot params))
                 (\<lambda>_. call_livestream_snapshot env target params)
          else returns ())
         (\<lambda>_. if svc = SERVICE_LIVESTREAM_RECORD
               then and_then (emit (Invoke (entity_id target) M_download_livestream params))
                      (\<lambda>_. call_download_livestream env target params)
               else returns ()))"

fun dispatch_loop :: "env \<Rightarrow> string \<Rightarrow> kwargs \<Rightarrow> LogiCam list \<Rightarrow> unit action" where
  "dispatch_loop env svc params [] = returns ()"
| "dispatch_loop env svc params (target # rest) =
     and_then (dispatch_one env svc params target) (\<lambda>_. dispatch_loop env svc params rest)"

text \<open>\<open>[dev for dev in cameras if dev.entity_id in entity_ids]\<close>\<close>

fun select_targets :: "LogiCam list \<Rightarrow> pyval \<Rightarrow> exn + LogiCam list" where
  "select_targets [] entity_ids = Inr []"
| "select_targets (dev # devs) entity_ids =
     (case py_in (entity_id dev) entity_ids of
        Inl e \<Rightarrow> Inl e
      | Inr b \<Rightarrow>
          (case select_targets devs entity_ids of
             Inl e \<Rightarrow> Inl e
           | Inr sel \<Rightarrow> Inr (if b then dev # sel else sel)))"

definition dict_get :: "kwargs \<Rightarrow> string \<Rightarrow> pyval" where
  "dict_get d k = (case map_of d k of None \<Rightarrow> VNone | Some v \<Rightarrow> v)"

definition service_handler ::
  "host_consts \<Rightarrow> env \<Rightarrow> LogiCam list \<Rightarrow> service_call \<Rightarrow> unit action" where
  "service_handler c env cameras call =
     (let params = filter (\<lambda>(key, val). key \<noteq> ATTR_ENTITY_ID c) (data call);
          entity_ids = dict_get (data call) (ATTR_ENTITY_ID c)
      in case (if truthy entity_ids then select_targets cameras entity_ids else Inr cameras) of
           Inl e \<Rightarrow> raises e
         | Inr target_devices \<Rightarrow> dispatch_loop env (service call) params target_devices)"


subsection \<open>What a dispatch is expected to invoke\<close>




subsection \<open>A concrete installation, for the examples\<close>

definition ha_consts :: host_consts where
  "ha_consts =
     \<lparr> ATTR_ENTITY_ID = ''entity_id'',
       ATTR_ATTRIBUTION = ''attribution'',
       ATTR_BATTERY_CHARGING = ''battery_charging'',
       ATTR_BATTERY_LEVEL = ''battery_level'',
       STATE_ON = ''on'',
       STATE_OFF = ''off'',
       ATTRIBUTION = ''Data provided by circle.logi.com'' \<rparr>"

text \<open>Every collaborator answers; only paths under \<open>/allowed/\<close> are whitelisted.\<close>

definition calm_env :: env where
  "calm_env =
     \<lparr> is_allowed_path = prefix ''/allowed/'',
       async_render = (\<lambda>t e. Inr t),
       dev_raises = (\<lambda>tr r c. None),
       get_snapshot_image = (\<lambda>tr r. Inr [0xFF, 0xD8]),
       last_activity = (\<lambda>r. Inr (Some ''https://video.example/1'')),
       session_cookie = (\<lambda>r. Inr ''abc''),
       open_camera = (\<lambda>arg. None),
       get_reader = Inr 7,
       proxy_stream = (\<lambda>request reader ctype. Inr 200),
       close_stream = None \<rparr>"

text \<open>The Device Handle 1 is offline: every awaited call on it raises.\<close>

definition offline_env :: env where
  "offline_env =
     calm_env \<lparr> dev_raises := (\<lambda>tr r c. if r = 1 then Some (Failure ''Offline'') else None),
                get_snapshot_image :=
                  (\<lambda>tr r. if r = 1 then Inl (Failure ''Offline'') else Inr [0xFF, 0xD8]) \<rparr>"

text \<open>The transcoding process fails to close, with an error that is not a broken pipe.\<close>

definition close_fails_env :: env where
  "close_fails_env = calm_env \<lparr> close_stream := Some (Failure ''ProcessLookupError'') \<rparr>"

text \<open>The client goes away: the copy raises, and the close then meets a broken pipe.\<close>

definition broken_pipe_env :: env where
  "broken_pipe_env =
     calm_env \<lparr> proxy_stream := (\<lambda>request reader ctype. Inl (Failure ''ConnectionResetError'')),
                close_stream := Some BrokenPipeError \<rparr>"

definition the_ffmpeg :: ffmpeg_manager where
  "the_ffmpeg = \<lparr> binary = ''ffmpeg'', ffmpeg_stream_content_type = ''multipart/x-mixed-replace'' \<rparr>"

definition cam_a :: LogiCam where
  "cam_a = \<lparr> self_camera = 0, self_name = ''Hall'', self_id = ''aa'', self_has_battery = True,
             self_ffmpeg = the_ffmpeg, entity_id = ''camera.a'' \<rparr>"

definition cam_b :: LogiCam where
  "cam_b = \<lparr> self_camera = 1, self_name = ''Door'', self_id = ''bb'', self_has_battery = False,
             self_ffmpeg = the_ffmpeg, entity_id = ''camera.b'' \<rparr>"

definition cam_c :: LogiCam where
  "cam_c = \<lparr> self_camera = 2, self_name = ''Yard'', self_id = ''cc'', self_has_battery = False,
             self_ffmpeg = the_ffmpeg, entity_id = ''camera.c'' \<rparr>"

definition led_on :: kwargs where
  "led_on = [(''mode'', VStr ''LED''), (''value'', VBool True)]"

definition a_handle :: device_handle where
  "a_handle =
     \<lparr> dh_name = ''Hall'', mac_address = ''aa'', features = [''battery_level''],
       battery_saving = VBool True, ip_address = VStr ''10.0.0.5'',
       microphone_gain = VInt 40, is_charging = VBool False, battery_level = VInt 83 \<rparr>"

text \<open>The same Device Handle later: it has moved, and its battery has drained.\<close>

definition a_handle_later :: device_handle where
  "a_handle_later =
     a_handle \<lparr> battery_saving := VBool False, ip_address := VStr ''10.0.0.9'',
                battery_level := VInt 61 \<rparr>"

definition three_cams :: "LogiCam list" where
  "three_cams = [cam_a, cam_b, cam_c]"

section \<open>Properties\<close>

subsection \<open>Traces of the dispatcher\<close>



















subsection \<open>The whitelist gate\<close>

text \<open>
  Claim C1, as amended. Let the file-name template render to the path \<open>P\<close>. The
  snapshot-to-file operation appends exactly one event to the trace and returns normally:
  the Device Handle's \<open>get_livestream_image P\<close> when the whitelist accepts \<open>P\<close>, one logged
  error naming \<open>P\<close> when it rejects \<open>P\<close>. The record-to-file operation, when the whitelist
  rejects \<open>P\<close>, logs that one error and returns normally, whatever the duration; when the
  whitelist accepts \<open>P\<close> and the duration is a number of seconds \<open>d\<close> that a \<open>timedelta\<close>
  holds, from \<open>-86399999913600\<close> to \<open>86399999999999\<close>, it makes the one Device Handle call
  \<open>record_livestream P d\<close> and returns normally.
\<close>

theorem whitelist_gates_file_operations:
  assumes "async_render env t (entity_id self) = Inr P"
  shows "livestream_snapshot env self (VTemplate t) tr =
           (Inr (), tr @ [if is_allowed_path env P
                          then Dev (self_camera self) (Get_livestream_image P)
                          else Log_error (''Can't write '' @ P @ '', no access to path!'')])
       \<and> (\<not> is_allowed_path env P \<longrightarrow>
            download_livestream env self (VTemplate t) duration tr =
              (Inr (), tr @ [Log_error (''Can't write '' @ P @ '', no access to path!'')]))
       \<and> (is_allowed_path env P \<and> - 86399999913600 \<le> d \<and> d \<le> 86399999999999 \<longrightarrow>
            download_livestream env self (VTemplate t) (VInt d) tr =
              (Inr (), tr @ [Dev (self_camera self) (Record_livestream P d)]))"
proof -
  have days: "- 999999999 \<le> d div 86400 \<and> d div 86400 \<le> 999999999"
    if "- 86399999913600 \<le> d" and "d \<le> 86399999999999"
    using that by linarith
  show ?thesis
    using assms days
    by (simp add: livestream_snapshot_def download_livestream_def render_filename_def
          and_then_def emit_def shield_dev_def no_access_message_def)
qed

theorem whitelist_gates_file_operations_witness:
  "livestream_snapshot calm_env cam_a (VTemplate ''/forbidden/out.jpg'') [] =
     (Inr (), [Log_error ''Can't write /forbidden/out.jpg, no access to path!''])
   \<and> download_livestream calm_env cam_a (VTemplate ''/forbidden/out.jpg'') (VInt 30) [] =
     (Inr (), [Log_error ''Can't write /forbidden/out.jpg, no access to path!''])
   \<and> livestream_snapshot calm_env cam_a (VTemplate ''/allowed/out.mp4'') [] =
     (Inr (), [Dev 0 (Get_livestream_image ''/allowed/out.mp4'')])
   \<and> download_livestream calm_env cam_a (VTemplate ''/allowed/out.mp4'') (VInt 30) [] =
     (Inr (), [Dev 0 (Record_livestream ''/allowed/out.mp4'' 30)])"
proof -
  have r1: "async_render calm_env ''/forbidden/out.jpg'' (entity_id cam_a)
              = Inr ''/forbidden/out.jpg''"
    by (simp add: calm_env_def)
  have r2: "async_render calm_env ''/allowed/out.mp4'' (entity_id cam_a)
              = Inr ''/allowed/out.mp4''"
    by (simp add: calm_env_def)
  have p1: "\<not> is_allowed_path calm_env ''/forbidden/out.jpg''"
    by (simp add: calm_env_def)
  have p2: "is_allowed_path calm_env ''/allowed/out.mp4''"
    by (simp add: calm_env_def)
  have c: "self_camera cam_a = 0"
    by (simp add: cam_a_def)
  show ?thesis
    using whitelist_gates_file_operations [OF r1, of "[]" "VInt 30" 30]
          whitelist_gates_file_operations [OF r2, of "[]" "VInt 30" 30] p1 p2 c
    by simp
qed

text \<open>
  As first stated, for every duration, the property fails: a duration of 86400000000000
  seconds, a thousand million days, is more than a \<open>timedelta\<close> holds, and with it the
  record-to-file operation on a whitelisted path raises and makes no Device Handle call.
\<close>

theorem duration_overflow_counterexample:
  "is_allowed_path calm_env ''/allowed/out.mp4''
 \<and> async_render calm_env ''/allowed/out.mp4'' (entity_id cam_a) = Inr ''/allowed/out.mp4''
 \<and> download_livestream calm_env cam_a (VTemplate ''/allowed/out.mp4'')
       (VInt 86400000000000) [] = (Inl OverflowError, [])"
  by (simp add: download_livestream_def render_filename_def and_then_def raises_def
        calm_env_def)

subsection \<open>Configuration modes\<close>

text \<open>
  Claim C2. With mode \<open>LED\<close>, \<open>PRIVACY_MODE\<close> or \<open>BATTERY_SAVING\<close> and a boolean \<open>b\<close>,
  \<open>set_config\<close> makes exactly one Device Handle call: \<open>set_led b\<close>,
  \<open>set_privacy_mode b\<close> or \<open>set_battery_saving_mode b\<close> respectively. With any other
  mode value it makes no call and returns normally.
\<close>

theorem set_config_calls_matching_setter:
  "(mode = VStr LED_MODE_KEY \<longrightarrow>
      snd (set_config env self mode (VBool b) tr)
        = tr @ [Dev (self_camera self) (Set_led (VBool b))])
 \<and> (mode = VStr PRIVACY_MODE_KEY \<longrightarrow>
      snd (set_config env self mode (VBool b) tr)
        = tr @ [Dev (self_camera self) (Set_privacy_mode (VBool b))])
 \<and> (mode = VStr BATTERY_SAVING_MODE_KEY \<longrightarrow>
      snd (set_config env self mode (VBool b) tr)
        = tr @ [Dev (self_camera self) (Set_battery_saving_mode (VBool b))])
 \<and> (mode \<notin> {VStr LED_MODE_KEY, VStr PRIVACY_MODE_KEY, VStr BATTERY_SAVING_MODE_KEY} \<longrightarrow>
      set_config env self mode val tr = (Inr (), tr))"
  by (simp add: set_config_def and_then_def await_dev_def returns_def
        LED_MODE_KEY_def PRIVACY_MODE_KEY_def BATTERY_SAVING_MODE_KEY_def
      split: option.split)

theorem set_config_calls_matching_setter_witness:
  "snd (set_config calm_env cam_a (VStr ''LED'') (VBool True) [])
     = [Dev 0 (Set_led (VBool True))]
 \<and> snd (set_config calm_env cam_a (VStr ''PRIVACY_MODE'') (VBool False) [])
     = [Dev 0 (Set_privacy_mode (VBool False))]
 \<and> snd (set_config calm_env cam_a (VStr ''BATTERY_SAVING'') (VBool True) [])
     = [Dev 0 (Set_battery_saving_mode (VBool True))]
 \<and> set_config calm_env cam_a (VStr ''NIGHT_VISION'') (VBool True) [] = (Inr (), [])"
  using set_config_calls_matching_setter [of "VStr ''LED''" calm_env cam_a True "[]" "VBool True"]
        set_config_calls_matching_setter
          [of "VStr ''PRIVACY_MODE''" calm_env cam_a False "[]" "VBool True"]
        set_config_calls_matching_setter
          [of "VStr ''BATTERY_SAVING''" calm_env cam_a True "[]" "VBool True"]
        set_config_calls_matching_setter
          [of "VStr ''NIGHT_VISION''" calm_env cam_a True "[]" "VBool True"]
  by (simp add: LED_MODE_KEY_def PRIVACY_MODE_KEY_def BATTERY_SAVING_MODE_KEY_def cam_a_def)

subsection \<open>Streaming mode\<close>

text \<open>
  Claim C7. Turn-on makes one Device Handle call, \<open>set_streaming_mode True\<close>, and turn-off
  one call, \<open>set_streaming_mode False\<close>; the outcome of that call is the outcome of the
  operation, nothing else is appended to the trace, and the adapter, which neither operation
  returns or updates, keeps no state of it.
\<close>

theorem turn_on_off_delegate:
  "async_turn_on env self tr =
     ((case dev_raises env tr (self_camera self) (Set_streaming_mode True) of
         None \<Rightarrow> Inr () | Some e \<Rightarrow> Inl e),
      tr @ [Dev (self_camera self) (Set_streaming_mode True)])
 \<and> async_turn_off env self tr =
     ((case dev_raises env tr (self_camera self) (Set_streaming_mode False) of
         None \<Rightarrow> Inr () | Some e \<Rightarrow> Inl e),
      tr @ [Dev (self_camera self) (Set_streaming_mode False)])"
  by (simp add: async_turn_on_def async_turn_off_def await_dev_def)

theorem turn_on_off_delegate_witness:
  "async_turn_on calm_env cam_b [] = (Inr (), [Dev 1 (Set_streaming_mode True)])
 \<and> async_turn_off calm_env cam_b [] = (Inr (), [Dev 1 (Set_streaming_mode False)])"
  using turn_on_off_delegate [of calm_env cam_b "[]"]
  by (simp add: calm_env_def cam_b_def)

subsection \<open>Still image\<close>

text \<open>
  Claim C8. Read-image makes one Device Handle call, the snapshot fetch. When the fetch
  returns bytes, read-image returns exactly those bytes; when the fetch raises, read-image
  raises that same exception.
\<close>

theorem camera_image_is_the_snapshot:
  "(get_snapshot_image env tr (self_camera self) = Inr img \<longrightarrow>
      fst (async_camera_image env self tr) = Inr img)
 \<and> (get_snapshot_image env tr (self_camera self) = Inl e \<longrightarrow>
      fst (async_camera_image env self tr) = Inl e)
 \<and> snd (async_camera_image env self tr) = tr @ [Dev (self_camera self) Get_snapshot_image]"
  by (simp add: async_camera_image_def)

theorem camera_image_is_the_snapshot_witness:
  "fst (async_camera_image calm_env cam_a []) = Inr [0xFF, 0xD8]
 \<and> fst (async_camera_image offline_env cam_b []) = Inl (Failure ''Offline'')"
proof -
  have g1: "get_snapshot_image calm_env [] (self_camera cam_a) = Inr [0xFF, 0xD8]"
    by (simp add: calm_env_def)
  have g2: "get_snapshot_image offline_env [] (self_camera cam_b) = Inl (Failure ''Offline'')"
    by (simp add: offline_env_def cam_b_def)
  show ?thesis
    using camera_image_is_the_snapshot [of calm_env "[]" cam_a "[0xFF, 0xD8]" "Failure ''Offline''"]
          camera_image_is_the_snapshot [of offline_env "[]" cam_b "[0xFF, 0xD8]" "Failure ''Offline''"]
          g1 g2
    by simp
qed


subsection \<open>The live-stream proxy\<close>

text \<open>
  Claim C5. Once the transcoding process is open, let the body of the \<open>try\<close> (the reader
  fetch and the byte copy) end as it may, with a result or an exception. The operation then
  attempts the close, as the last event and only once. When the close returns, the body's
  outcome is the operation's; when the close raises a broken pipe, the operation returns
  \<open>None\<close> and no error; when the close raises anything else, that exception is the
  operation's.
\<close>

theorem close_always_attempted:
  assumes "last_activity env (self_camera self) = Inr (Some url)"
    and "session_cookie env (self_camera self) = Inr cookie"
    and "open_camera env (''-headers '' @ auth_header cookie @ '' -i '' @ url) = None"
  shows "case stream_body env self request
                (tr @ [Dev (self_camera self) Last_activity,
                       Open_camera (''-headers '' @ auth_header cookie @ '' -i '' @ url)]) of
           (body_result, tr1) \<Rightarrow>
             handle_async_mjpeg_stream env self request tr =
               ((case close_stream env of
                   None \<Rightarrow> body_result
                 | Some e \<Rightarrow> if e = BrokenPipeError then Inr None else Inl e),
                tr1 @ [Close_stream])
             \<and> Close_stream \<notin> set (drop (length tr) tr1)"
  using assms
  by (auto simp add: handle_async_mjpeg_stream_def and_then_def await_last_activity_def
        lookup_cookie_def download_url_def returns_def await_open_camera_def
        finally_close_def stream_body_def await_get_reader_def await_proxy_stream_def
      split: sum.splits option.splits prod.splits)

theorem close_always_attempted_witness:
  "handle_async_mjpeg_stream close_fails_env cam_a 1 [] =
     (Inl (Failure ''ProcessLookupError''),
      [Dev 0 Last_activity,
       Open_camera (''-headers '' @ auth_header ''abc'' @ '' -i https://video.example/1''),
       Get_reader,
       Proxy_stream 1 7 ''multipart/x-mixed-replace'',
       Close_stream])"
proof -
  have h1: "last_activity close_fails_env (self_camera cam_a) = Inr (Some ''https://video.example/1'')"
    by (simp add: close_fails_env_def calm_env_def)
  have h2: "session_cookie close_fails_env (self_camera cam_a) = Inr ''abc''"
    by (simp add: close_fails_env_def calm_env_def)
  have h3: "open_camera close_fails_env
              (''-headers '' @ auth_header ''abc'' @ '' -i '' @ ''https://video.example/1'') = None"
    by (simp add: close_fails_env_def calm_env_def)
  have body: "stream_body close_fails_env cam_a 1
                ([] @ [Dev (self_camera cam_a) Last_activity,
                       Open_camera (''-headers '' @ auth_header ''abc'' @ '' -i ''
                                     @ ''https://video.example/1'')]) =
              (Inr (Some 200),
               [Dev 0 Last_activity,
                Open_camera (''-headers '' @ auth_header ''abc'' @ '' -i https://video.example/1''),
                Get_reader,
                Proxy_stream 1 7 ''multipart/x-mixed-replace''])"
    by (simp add: stream_body_def and_then_def await_get_reader_def await_proxy_stream_def
          close_fails_env_def calm_env_def cam_a_def the_ffmpeg_def)
  have cl: "close_stream close_fails_env = Some (Failure ''ProcessLookupError'')"
    by (simp add: close_fails_env_def)
  show ?thesis
    using close_always_attempted [OF h1 h2 h3, of 1 "[]"] body cl
    by simp
qed

text \<open>
  Claim C10. Let the process be open and the reader fetched. When the byte copy raises and
  the close then raises a broken pipe, the operation returns \<open>None\<close>: the exception of the
  copy is dropped with that of the close, and the caller sees no error.
\<close>

theorem broken_pipe_on_close_drops_copy_error:
  assumes "last_activity env (self_camera self) = Inr (Some url)"
    and "session_cookie env (self_camera self) = Inr cookie"
    and "open_camera env (''-headers '' @ auth_header cookie @ '' -i '' @ url) = None"
    and "get_reader env = Inr reader"
    and "proxy_stream env request reader (ffmpeg_stream_content_type (self_ffmpeg self)) = Inl e"
    and "close_stream env = Some BrokenPipeError"
  shows "handle_async_mjpeg_stream env self request tr =
           (Inr None,
            tr @ [Dev (self_camera self) Last_activity,
                  Open_camera (''-headers '' @ auth_header cookie @ '' -i '' @ url),
                  Get_reader,
                  Proxy_stream request reader (ffmpeg_stream_content_type (self_ffmpeg self)),
                  Close_stream])"
  using assms
  by (simp add: handle_async_mjpeg_stream_def and_then_def await_last_activity_def
        lookup_cookie_def download_url_def returns_def await_open_camera_def
        finally_close_def stream_body_def await_get_reader_def await_proxy_stream_def)

theorem broken_pipe_on_close_drops_copy_error_witness:
  "handle_async_mjpeg_stream broken_pipe_env cam_b 4 [] =
     (Inr None,
      [Dev 1 Last_activity,
       Open_camera (''-headers '' @ auth_header ''abc'' @ '' -i https://video.example/1''),
       Get_reader,
       Proxy_stream 4 7 ''multipart/x-mixed-replace'',
       Close_stream])"
proof -
  have h1: "last_activity broken_pipe_env (self_camera cam_b) = Inr (Some ''https://video.example/1'')"
    by (simp add: broken_pipe_env_def calm_env_def)
  have h2: "session_cookie broken_pipe_env (self_camera cam_b) = Inr ''abc''"
    by (simp add: broken_pipe_env_def calm_env_def)
  have h3: "open_camera broken_pipe_env
              (''-headers '' @ auth_header ''abc'' @ '' -i '' @ ''https://video.example/1'') = None"
    by (simp add: broken_pipe_env_def calm_env_def)
  have h4: "get_reader broken_pipe_env = Inr 7"
    by (simp add: broken_pipe_env_def calm_env_def)
  have h5: "proxy_stream broken_pipe_env 4 7 (ffmpeg_stream_content_type (self_ffmpeg cam_b))
              = Inl (Failure ''ConnectionResetError'')"
    by (simp add: broken_pipe_env_def)
  have h6: "close_stream broken_pipe_env = Some BrokenPipeError"
    by (simp add: broken_pipe_env_def)
  show ?thesis
    using broken_pipe_on_close_drops_copy_error [OF h1 h2 h3 h4 h5 h6, of "[]"]
    by (simp add: cam_b_def the_ffmpeg_def)
qed

subsection \<open>State attributes\<close>

text \<open>
  Claim C6. Let the adapter have been constructed on a Device Handle, and let the six
  attribute keys be distinct. A read of the state attributes against the Device Handle as it
  is at the time of the read contains the attribution string, the battery-saving mode as
  on or off, the IP address and the microphone gain, each the Device Handle's value at that
  time. The charging state and the battery level, also the values at that time, are there
  when the Device Handle reported the battery capability to the adapter at construction,
  and then the dict has exactly these six keys; otherwise it has exactly the four. The read
  is a function of the current Device Handle and keeps nothing for the next read.
\<close>

theorem state_attributes_are_live:
  assumes "distinct [ATTR_ATTRIBUTION c, ''battery_saving_mode'', ''ip_address'',
                     ''microphone_gain'', ATTR_BATTERY_CHARGING c, ATTR_BATTERY_LEVEL c]"
    and "self = LogiCam_init store0 r ff eid"
  shows "device_state_attributes c store self (ATTR_ATTRIBUTION c) = Some (VStr (ATTRIBUTION c))
     \<and> device_state_attributes c store self ''battery_saving_mode''
         = Some (VStr (if truthy (battery_saving (store r)) then STATE_ON c else STATE_OFF c))
     \<and> device_state_attributes c store self ''ip_address'' = Some (ip_address (store r))
     \<and> device_state_attributes c store self ''microphone_gain'' = Some (microphone_gain (store r))
     \<and> (if supports_feature (store0 r) ''battery_level''
        then device_state_attributes c store self (ATTR_BATTERY_CHARGING c)
               = Some (is_charging (store r))
           \<and> device_state_attributes c store self (ATTR_BATTERY_LEVEL c)
               = Some (battery_level (store r))
           \<and> dom (device_state_attributes c store self)
               = {ATTR_ATTRIBUTION c, ''battery_saving_mode'', ''ip_address'',
                  ''microphone_gain'', ATTR_BATTERY_CHARGING c, ATTR_BATTERY_LEVEL c}
        else dom (device_state_attributes c store self)
               = {ATTR_ATTRIBUTION c, ''battery_saving_mode'', ''ip_address'',
                  ''microphone_gain''})"
  using assms
  by (auto simp add: device_state_attributes_def LogiCam_init_def Let_def)

theorem state_attributes_are_live_witness:
  "device_state_attributes ha_consts (\<lambda>r. a_handle_later)
       (LogiCam_init (\<lambda>r. a_handle) 0 the_ffmpeg ''camera.a'') ''attribution''
     = Some (VStr ''Data provided by circle.logi.com'')
 \<and> device_state_attributes ha_consts (\<lambda>r. a_handle_later)
       (LogiCam_init (\<lambda>r. a_handle) 0 the_ffmpeg ''camera.a'') ''battery_saving_mode''
     = Some (VStr ''off'')
 \<and> device_state_attributes ha_consts (\<lambda>r. a_handle_later)
       (LogiCam_init (\<lambda>r. a_handle) 0 the_ffmpeg ''camera.a'') ''ip_address''
     = Some (VStr ''10.0.0.9'')
 \<and> device_state_attributes ha_consts (\<lambda>r. a_handle_later)
       (LogiCam_init (\<lambda>r. a_handle) 0 the_ffmpeg ''camera.a'') ''microphone_gain''
     = Some (VInt 40)
 \<and> device_state_attributes ha_consts (\<lambda>r. a_handle_later)
       (LogiCam_init (\<lambda>r. a_handle) 0 the_ffmpeg ''camera.a'') ''battery_charging''
     = Some (VBool False)
 \<and> device_state_attributes ha_consts (\<lambda>r. a_handle_later)
       (LogiCam_init (\<lambda>r. a_handle) 0 the_ffmpeg ''camera.a'') ''battery_level''
     = Some (VInt 61)"
proof -
  have d: "distinct [ATTR_ATTRIBUTION ha_consts, ''battery_saving_mode'', ''ip_address'',
                     ''microphone_gain'', ATTR_BATTERY_CHARGING ha_consts,
                     ATTR_BATTERY_LEVEL ha_consts]"
    by (simp add: ha_consts_def)
  have f: "supports_feature a_handle ''battery_level''"
    by (simp add: supports_feature_def a_handle_def)
  show ?thesis
    using state_attributes_are_live [OF d refl, of "\<lambda>r. a_handle_later" "\<lambda>r. a_handle" 0
            the_ffmpeg "''camera.a''"] f
    by (simp add: ha_consts_def a_handle_later_def a_handle_def)
qed


subsection \<open>The dispatcher\<close>

lemma dispatch_loop_append:
  "dispatch_loop env svc params (xs @ ys) =
     and_then (dispatch_loop env svc params xs) (\<lambda>_. dispatch_loop env svc params ys)"
proof (induction xs)
  case Nil
  show ?case by (rule ext) (simp add: and_then_def returns_def)
next
  case (Cons x xs)
  show ?case
    by (rule ext) (simp add: Cons.IH and_then_def split: prod.split sum.split)
qed




lemmas run_defs =
  service_handler_def dict_get_def Let_def dispatch_one_def call_set_config_def
  call_livestream_snapshot_def call_download_livestream_def accepts_def set_config_def
  livestream_snapshot_def download_livestream_def render_filename_def and_then_def
  emit_def await_dev_def shield_dev_def returns_def raises_def no_access_message_def
  SERVICE_SET_CONFIG_def SERVICE_LIVESTREAM_SNAPSHOT_def SERVICE_LIVESTREAM_RECORD_def
  LED_MODE_KEY_def PRIVACY_MODE_KEY_def BATTERY_SAVING_MODE_KEY_def
  ha_consts_def calm_env_def offline_env_def three_cams_def cam_a_def cam_b_def cam_c_def
  the_ffmpeg_def led_on_def







text \<open>
  Claim C4, as amended. Let the dispatch have returned normally from the targets before
  one. When the operation on that target raises, the dispatch raises the same exception
  with the trace as it then is: no remaining target is invoked. When the operation on that
  target returns normally, the dispatch goes on with the remaining targets.
\<close>

theorem dispatch_stops_at_first_raise:
  assumes "dispatch_loop env svc params before tr = (Inr (), tr1)"
  shows "(dispatch_one env svc params target tr1 = (Inl e, tr2) \<longrightarrow>
            dispatch_loop env svc params (before @ target # rest) tr = (Inl e, tr2))
       \<and> (dispatch_one env svc params target tr1 = (Inr (), tr2) \<longrightarrow>
            dispatch_loop env svc params (before @ target # rest) tr
              = dispatch_loop env svc params rest tr2)"
  using assms by (simp add: dispatch_loop_append and_then_def)

theorem dispatch_stops_at_first_raise_witness:
  "dispatch_loop offline_env SERVICE_SET_CONFIG led_on ([cam_a] @ cam_b # [cam_c]) []
     = (Inl (Failure ''Offline''),
        [Invoke ''camera.a'' M_set_config led_on, Dev 0 (Set_led (VBool True)),
         Invoke ''camera.b'' M_set_config led_on, Dev 1 (Set_led (VBool True))])
 \<and> dispatch_loop calm_env SERVICE_SET_CONFIG led_on ([cam_a] @ cam_b # [cam_c]) []
     = dispatch_loop calm_env SERVICE_SET_CONFIG led_on [cam_c]
         [Invoke ''camera.a'' M_set_config led_on, Dev 0 (Set_led (VBool True)),
          Invoke ''camera.b'' M_set_config led_on, Dev 1 (Set_led (VBool True))]"
proof -
  let ?t1 = "[Invoke ''camera.a'' M_set_config led_on, Dev 0 (Set_led (VBool True))]"
  let ?t2 = "[Invoke ''camera.a'' M_set_config led_on, Dev 0 (Set_led (VBool True)),
              Invoke ''camera.b'' M_set_config led_on, Dev 1 (Set_led (VBool True))]"
  have b1: "dispatch_loop offline_env SERVICE_SET_CONFIG led_on [cam_a] [] = (Inr (), ?t1)"
    by (simp add: run_defs)
  have b2: "dispatch_loop calm_env SERVICE_SET_CONFIG led_on [cam_a] [] = (Inr (), ?t1)"
    by (simp add: run_defs)
  have o1: "dispatch_one offline_env SERVICE_SET_CONFIG led_on cam_b ?t1
              = (Inl (Failure ''Offline''), ?t2)"
    by (simp add: run_defs)
  have o2: "dispatch_one calm_env SERVICE_SET_CONFIG led_on cam_b ?t1 = (Inr (), ?t2)"
    by (simp add: run_defs)
  show ?thesis
    using dispatch_stops_at_first_raise [OF b1, of cam_b "Failure ''Offline''" ?t2 "[cam_c]"]
          dispatch_stops_at_first_raise [OF b2, of cam_b "Failure ''Offline''" ?t2 "[cam_c]"]
          o1 o2
    by simp
qed

text \<open>
  A dispatch does not survive a raise: with no identifier set and the Device Handle of
  \<open>camera.b\<close> offline, \<open>set_config\<close> raises at \<open>camera.b\<close>, and \<open>camera.c\<close>, the
  remaining target, is never invoked.
\<close>

theorem raise_aborts_dispatch_counterexample:
  "service_handler ha_consts offline_env three_cams
       \<lparr> service = SERVICE_SET_CONFIG,
         data = [(''mode'', VStr ''PRIVACY_MODE''), (''value'', VBool True)] \<rparr> []
     = (Inl (Failure ''Offline''),
        [Invoke ''camera.a'' M_set_config
           [(''mode'', VStr ''PRIVACY_MODE''), (''value'', VBool True)],
         Dev 0 (Set_privacy_mode (VBool True)),
         Invoke ''camera.b'' M_set_config
           [(''mode'', VStr ''PRIVACY_MODE''), (''value'', VBool True)],
         Dev 1 (Set_privacy_mode (VBool True))])"
  by (simp add: run_defs)



end
